theory Spec2Isabelle
  imports Complex_Main "HOL-Library.Stream" "HOL-Library.Multiset"
begin

section \<open>Strings, characters and the random source\<close>

text \<open>
  A Python \<open>str\<close> is a sequence of Unicode code points, and \<open>len\<close> counts code points:
  a string is a list of naturals.  The homoglyph table of \<open>character_substitution_decoy\<close>
  holds code points above 255, so the 8-bit \<open>char\<close> of HOL would not do.
\<close>

type_synonym pychar = nat
type_synonym pystr = "nat list"

definition ascii :: "string \<Rightarrow> pystr" where
  "ascii s = map of_char s"

text \<open>
  The methods \<open>str.lower\<close>, \<open>str.isalpha\<close>, \<open>str.isupper\<close>, \<open>str.isdigit\<close> and the
  regular-expression classes \<open>\w\<close> and \<open>\d\<close> follow the Unicode character database, which is
  not part of the repository.  On ASCII they are written out; above ASCII they are read
  from a parameter, so every statement holds whatever the database says there.
\<close>

record ucd =
  uni_lower :: "pychar \<Rightarrow> pystr"
  uni_isalpha :: "pychar \<Rightarrow> bool"
  uni_isupper :: "pychar \<Rightarrow> bool"
  uni_isdigit :: "pychar \<Rightarrow> bool"
  uni_isalnum :: "pychar \<Rightarrow> bool"
  uni_isdecimal :: "pychar \<Rightarrow> bool"

definition ascii_upper :: "pychar \<Rightarrow> bool" where
  "ascii_upper c = (65 \<le> c \<and> c \<le> 90)"

definition ascii_lower :: "pychar \<Rightarrow> bool" where
  "ascii_lower c = (97 \<le> c \<and> c \<le> 122)"

definition ascii_digit :: "pychar \<Rightarrow> bool" where
  "ascii_digit c = (48 \<le> c \<and> c \<le> 57)"

definition py_lower :: "ucd \<Rightarrow> pychar \<Rightarrow> pystr" where
  "py_lower U c = (if c < 128 then (if ascii_upper c then [c + 32] else [c]) else uni_lower U c)"

definition py_isalpha :: "ucd \<Rightarrow> pychar \<Rightarrow> bool" where
  "py_isalpha U c = (if c < 128 then ascii_upper c \<or> ascii_lower c else uni_isalpha U c)"

definition py_isupper :: "ucd \<Rightarrow> pychar \<Rightarrow> bool" where
  "py_isupper U c = (if c < 128 then ascii_upper c else uni_isupper U c)"

definition py_isdigit :: "ucd \<Rightarrow> pychar \<Rightarrow> bool" where
  "py_isdigit U c = (if c < 128 then ascii_digit c else uni_isdigit U c)"

text \<open>The class \<open>\w\<close> of a \<open>str\<close> pattern: alphanumeric or the underscore; \<open>\d\<close>: a decimal digit.\<close>

definition re_word :: "ucd \<Rightarrow> pychar \<Rightarrow> bool" where
  "re_word U c = (if c < 128 then ascii_upper c \<or> ascii_lower c \<or> ascii_digit c \<or> c = 95
                  else uni_isalnum U c)"

definition re_digit :: "ucd \<Rightarrow> pychar \<Rightarrow> bool" where
  "re_digit U c = (if c < 128 then ascii_digit c else uni_isdecimal U c)"

text \<open>A database that knows no character above ASCII, for evaluating ASCII inputs.\<close>

definition ascii_only :: ucd where
  "ascii_only = \<lparr> uni_lower = (\<lambda>c. [c]), uni_isalpha = (\<lambda>c. False), uni_isupper = (\<lambda>c. False),
     uni_isdigit = (\<lambda>c. False), uni_isalnum = (\<lambda>c. False), uni_isdecimal = (\<lambda>c. False) \<rparr>"

text \<open>
  The ambient generator \<open>np.random\<close> is an explicit stream of raw draws, threaded through
  every function that uses it.  Each numpy call reads the draws it needs and can return
  every value of its range:
  \<^item> \<open>np.random.randint(low, high)\<close> returns an integer of \<open>[low, high)\<close> (every call of the
    program has \<open>low < high\<close>);
  \<^item> \<open>np.random.random()\<close> returns one of the \<open>2^53\<close> floats \<open>k / 2^53\<close> of \<open>[0, 1)\<close>;
  \<^item> \<open>np.random.choice(n, size=k, replace=False)\<close> returns \<open>k\<close> indices below \<open>n\<close> drawn
    without replacement, and raises \<open>ValueError\<close> when the population is empty and a sample
    is asked for, or when the sample is larger than the population.
\<close>

type_synonym rng = "nat stream"

datatype error = ValueError | ReError

definition np_randint :: "int \<Rightarrow> int \<Rightarrow> rng \<Rightarrow> int \<times> rng" where
  "np_randint low high g = (low + int (shd g) mod (high - low), stl g)"

definition np_random :: "rng \<Rightarrow> real \<times> rng" where
  "np_random g = (real (shd g mod 2 ^ 53) / 2 ^ 53, stl g)"

fun draw_without_replacement :: "nat list \<Rightarrow> nat \<Rightarrow> rng \<Rightarrow> nat list \<times> rng" where
  "draw_without_replacement pool 0 g = ([], g)"
| "draw_without_replacement pool (Suc k) g =
     (let i = shd g mod length pool;
          (rest, g') = draw_without_replacement (take i pool @ drop (Suc i) pool) k (stl g)
      in (pool ! i # rest, g'))"

definition np_choice :: "nat \<Rightarrow> int \<Rightarrow> rng \<Rightarrow> error + (nat list \<times> rng)" where
  "np_choice n k g =
     (if n = 0 \<and> k \<noteq> 0 then Inl ValueError
      else if k < 0 \<or> int n < k then Inl ValueError
      else Inr (draw_without_replacement [0..<n] (nat k) g))"

section \<open>Mutation primitives\<close>

subsection \<open>\<open>character_substitution_decoy\<close>\<close>

text \<open>Python's \<open>int(x)\<close> on a float truncates towards zero.  Floats are modelled as reals.\<close>

definition py_int :: "real \<Rightarrow> int" where
  "py_int x = (if 0 \<le> x then \<lfloor>x\<rfloor> else \<lceil>x\<rceil>)"

text \<open>
  \<^verbatim>\<open>num_to_modify = int((1.0 - similarity) * len(target))\<close>
  \<^verbatim>\<open>num_to_modify = max(1, min(num_to_modify, len(target) - 1))\<close>
\<close>

definition num_to_modify :: "pystr \<Rightarrow> real \<Rightarrow> int" where
  "num_to_modify target similarity =
     (let n = py_int ((1 - similarity) * real (length target))
      in max 1 (min n (int (length target) - 1)))"

text \<open>\<^verbatim>\<open>positions = np.random.choice(len(target), size=num_to_modify, replace=False)\<close>\<close>

definition choose_positions :: "pystr \<Rightarrow> real \<Rightarrow> rng \<Rightarrow> error + (nat list \<times> rng)" where
  "choose_positions target similarity g =
     np_choice (length target) (num_to_modify target similarity) g"

text \<open>The dictionary \<open>substitutions\<close>: single-character keys, three one-character options each.\<close>

definition substitutions :: "pystr \<rightharpoonup> pystr list" where
  "substitutions = map_of
     [ (ascii ''a'', [ascii ''@'', ascii ''4'', [225]]),
       (ascii ''b'', [ascii ''6'', ascii ''8'', [223]]),
       (ascii ''e'', [ascii ''3'', [233], [235]]),
       (ascii ''i'', [ascii ''1'', ascii ''!'', [237]]),
       (ascii ''l'', [ascii ''1'', ascii ''|'', [322]]),
       (ascii ''o'', [ascii ''0'', [248], [243]]),
       (ascii ''s'', [ascii ''5'', ascii ''$'', [353]]),
       (ascii ''t'', [ascii ''7'', ascii ''+'', [355]]),
       (ascii ''z'', [ascii ''2'', [382], [380]]) ]"

definition special_chars :: "pystr list" where
  "special_chars = map (\<lambda>c. [c]) (ascii ''!@#$%^&*-_+='')"

text \<open>\<^verbatim>\<open>[str(d) for d in range(10) if str(d) != target[pos]]\<close>\<close>

definition other_digits :: "pychar \<Rightarrow> pystr list" where
  "other_digits c = filter (\<lambda>s. s \<noteq> [c]) (map (\<lambda>d. [48 + d]) [0..<10])"

text \<open>
  The body of the loop \<open>for pos in positions\<close>: the character class of \<open>target[pos]\<close>
  selects the replacement written to \<open>chars[pos]\<close>.
\<close>

definition substitute_step :: "ucd \<Rightarrow> pystr \<Rightarrow> nat \<Rightarrow> pystr list \<times> rng \<Rightarrow> pystr list \<times> rng" where
  "substitute_step U target pos st =
     (let chars = fst st; g = snd st; c = target ! pos in
      case substitutions (py_lower U c) of
        Some options \<Rightarrow>
          (let (k, g') = np_randint 0 (int (length options)) g
           in (chars[pos := options ! nat k], g'))
      | None \<Rightarrow>
          if py_isalpha U c then
            (if py_isupper U c
             then (let (k, g') = np_randint 65 91 g in (chars[pos := [nat k]], g'))
             else (let (k, g') = np_randint 97 123 g in (chars[pos := [nat k]], g')))
          else if py_isdigit U c then
            (let options = other_digits c;
                 (k, g') = np_randint 0 (int (length options)) g
             in (chars[pos := options ! nat k], g'))
          else
            (let (k, g') = np_randint 0 (int (length special_chars)) g
             in (chars[pos := special_chars ! nat k], g')))"

definition character_substitution_decoy :: "ucd \<Rightarrow> pystr \<Rightarrow> real \<Rightarrow> rng \<Rightarrow> error + (pystr \<times> rng)" where
  "character_substitution_decoy U target similarity g =
     (let chars = map (\<lambda>c. [c]) target in
      case choose_positions target similarity g of
        Inl e \<Rightarrow> Inl e
      | Inr (positions, g1) \<Rightarrow>
          (let (chars', g2) = fold (substitute_step U target) positions (chars, g1)
           in Inr (concat chars', g2)))"

subsection \<open>\<open>structural_variation_decoy\<close>\<close>

text \<open>
  The two regular expressions of the table \<open>patterns\<close>, and replacement templates in parsed
  form.  \<open>re.sub\<close> compiles the template before it looks for a match, and since Python 3.7 an
  escape of an ASCII letter that the template syntax does not know (the \<open>\d\<close> of the last
  entry) raises \<open>re.error\<close>, as does a reference to a group the pattern does not have.
\<close>

datatype pattern = WordDigits | Word

datatype titem = Lit pystr | Group nat | BadEscape pychar

fun ngroups :: "pattern \<Rightarrow> nat" where
  "ngroups WordDigits = 2"
| "ngroups Word = 1"

fun titem_ok :: "pattern \<Rightarrow> titem \<Rightarrow> bool" where
  "titem_ok p (Lit s) = True"
| "titem_ok p (Group n) = (1 \<le> n \<and> n \<le> ngroups p)"
| "titem_ok p (BadEscape c) = False"

fun expand_item :: "pystr list \<Rightarrow> titem \<Rightarrow> pystr" where
  "expand_item groups (Lit s) = s"
| "expand_item groups (Group n) = groups ! (n - 1)"
| "expand_item groups (BadEscape c) = []"

definition expand :: "titem list \<Rightarrow> pystr list \<Rightarrow> pystr" where
  "expand template groups = concat (map (expand_item groups) template)"

text \<open>
  A match of \<open>(\w+)(\d+)\<close> at the head of \<open>s\<close>: the greedy \<open>\w+\<close> first takes the whole run
  of word characters and gives characters back one at a time until \<open>\d+\<close>, greedy as well,
  finds at least one digit after it.
\<close>

primrec backtrack :: "ucd \<Rightarrow> pystr \<Rightarrow> nat \<Rightarrow> (pystr list \<times> pystr) option" where
  "backtrack U s 0 = None"
| "backtrack U s (Suc m) =
     (let d = takeWhile (re_digit U) (drop (Suc m) s)
      in if d \<noteq> [] then Some ([take (Suc m) s, d], drop (Suc m + length d) s)
         else backtrack U s m)"

definition match_at :: "ucd \<Rightarrow> pattern \<Rightarrow> pystr \<Rightarrow> (pystr list \<times> pystr) option" where
  "match_at U p s =
     (let w = takeWhile (re_word U) s in
      case p of
        Word \<Rightarrow> if w \<noteq> [] then Some ([w], drop (length w) s) else None
      | WordDigits \<Rightarrow> backtrack U s (length w))"

lemma backtrack_shorter:
  "backtrack U s m = Some (groups, rest) \<Longrightarrow> length rest < length s"
proof (induction m)
  case 0
  then show ?case by simp
next
  case (Suc m)
  show ?case
  proof (cases "takeWhile (re_digit U) (drop (Suc m) s) = []")
    case True
    with Suc show ?thesis by simp
  next
    case False
    then have "drop (Suc m) s \<noteq> []" by auto
    then have "Suc m < length s" by simp
    moreover from False Suc.prems
    have "rest = drop (Suc m + length (takeWhile (re_digit U) (drop (Suc m) s))) s"
      by (simp add: Let_def)
    ultimately show ?thesis by simp
  qed
qed

lemma match_at_shorter:
  "match_at U p s = Some (groups, rest) \<Longrightarrow> length rest < length s"
proof (cases p)
  case WordDigits
  assume "match_at U p s = Some (groups, rest)"
  with WordDigits show ?thesis
    by (auto simp: match_at_def dest: backtrack_shorter)
next
  case Word
  assume m: "match_at U p s = Some (groups, rest)"
  with Word have w: "takeWhile (re_word U) s \<noteq> []" and r: "rest = drop (length (takeWhile (re_word U) s)) s"
    by (auto simp: match_at_def Let_def split: if_splits)
  from w have "s \<noteq> []" by auto
  with w r show ?thesis by simp
qed

text \<open>
  \<open>re.sub\<close> scans from the left: where the pattern matches, the expanded template replaces
  the match and the scan goes on behind it; elsewhere the character is copied.
\<close>

function re_sub :: "ucd \<Rightarrow> pattern \<Rightarrow> titem list \<Rightarrow> pystr \<Rightarrow> pystr" where
  "re_sub U p template [] = []"
| "re_sub U p template (c # cs) =
     (case match_at U p (c # cs) of
        Some (groups, rest) \<Rightarrow> expand template groups @ re_sub U p template rest
      | None \<Rightarrow> c # re_sub U p template cs)"
  by pat_completeness auto
termination
  by (relation "measure (\<lambda>(U, p, template, s). length s)") (auto dest: match_at_shorter)

definition py_re_sub :: "ucd \<Rightarrow> pattern \<Rightarrow> titem list \<Rightarrow> pystr \<Rightarrow> error + pystr" where
  "py_re_sub U p template s =
     (if list_all (titem_ok p) template then Inr (re_sub U p template s) else Inl ReError)"

text \<open>
  \<^verbatim>\<open>(r'(\w+)(\d+)', r'\1-\2'), (r'(\w+)(\d+)', r'\1_\2'), (r'(\w+)', r'\1-prime'),\<close>
  \<^verbatim>\<open>(r'(\w+)', r'\1v2'), (r'(\w+)', r'light\1'), (r'(\w+)', r'fire\1'),\<close>
  \<^verbatim>\<open>(r'(\w+)(\d+)', r'\1-\2'), (r'(\w+)', r'\1\d')\<close>
\<close>

definition patterns :: "(pattern \<times> titem list) list" where
  "patterns =
     [ (WordDigits, [Group 1, Lit (ascii ''-''), Group 2]),
       (WordDigits, [Group 1, Lit (ascii ''_''), Group 2]),
       (Word, [Group 1, Lit (ascii ''-prime'')]),
       (Word, [Group 1, Lit (ascii ''v2'')]),
       (Word, [Lit (ascii ''light''), Group 1]),
       (Word, [Lit (ascii ''fire''), Group 1]),
       (WordDigits, [Group 1, Lit (ascii ''-''), Group 2]),
       (Word, [Group 1, BadEscape 100]) ]"

definition structural_variation_decoy :: "ucd \<Rightarrow> pystr \<Rightarrow> real \<Rightarrow> rng \<Rightarrow> error + (pystr \<times> rng)" where
  "structural_variation_decoy U target similarity g =
     (let (pattern_idx, g1) = np_randint 0 (int (length patterns)) g;
          (pattern, replacement) = patterns ! nat pattern_idx
      in case py_re_sub U pattern replacement target of
           Inl e \<Rightarrow> Inl e
         | Inr result \<Rightarrow>
             if result = target then character_substitution_decoy U target similarity g1
             else Inr (result, g1))"

section \<open>Decoy generator\<close>

definition generate_decoy :: "ucd \<Rightarrow> pystr \<Rightarrow> int \<Rightarrow> rng \<Rightarrow> error + (pystr \<times> rng)" where
  "generate_decoy U target complexity g =
     (if target = [] then Inr ([], g)
      else
        let similarity = 1 - real_of_int complexity / 20 in
        if complexity \<le> 3 then character_substitution_decoy U target similarity g
        else if complexity \<le> 7 then
          (let (u, g1) = np_random g
           in if u < 0.5 then character_substitution_decoy U target similarity g1
              else structural_variation_decoy U target similarity g1)
        else structural_variation_decoy U target similarity g)"

section \<open>Effectiveness scorer\<close>

text \<open>
  What the scorer reads from outside the repository: the Unicode database, the ratio of
  \<open>difflib.SequenceMatcher(None, a, b)\<close> and the wall-clock time a request took.
\<close>

record extern =
  unicode :: ucd
  sequence_ratio :: "pystr \<Rightarrow> pystr \<Rightarrow> real"
  elapsed_seconds :: real

text \<open>
  The module globals \<open>model\<close> and \<open>vectorizer\<close>, \<open>None\<close> until loaded.  A loaded vectorizer
  maps a string to its feature vector, a loaded model maps a feature vector to
  \<open>predict_proba(X)[0][1]\<close>, the probability of the class "real".
\<close>

record 'f globals =
  model :: "('f \<Rightarrow> real) option"
  vectorizer :: "(pystr \<Rightarrow> 'f) option"

definition calculate_similarity :: "extern \<Rightarrow> pystr \<Rightarrow> pystr \<Rightarrow> real" where
  "calculate_similarity E decoy target = sequence_ratio E decoy target"

definition real_probability_of :: "'f globals \<Rightarrow> pystr \<Rightarrow> real option" where
  "real_probability_of G decoy =
     (case (model G, vectorizer G) of
        (Some m, Some v) \<Rightarrow> Some (m (v decoy))
      | _ \<Rightarrow> None)"

definition evaluate_decoy :: "extern \<Rightarrow> 'f globals \<Rightarrow> pystr \<Rightarrow> pystr \<Rightarrow> real" where
  "evaluate_decoy E G decoy target =
     (let similarity = calculate_similarity E decoy target;
          real_probability = (case real_probability_of G decoy of Some p \<Rightarrow> p | None \<Rightarrow> 0.5)
      in similarity * 0.5 + real_probability * 0.5)"

text \<open>
  \<open>round(x, 2)\<close>: the nearest multiple of \<open>0.01\<close>, a tie going to the even neighbour.
\<close>

definition round_half_even :: "real \<Rightarrow> int" where
  "round_half_even y =
     (let f = \<lfloor>y\<rfloor>; r = y - of_int f
      in if r < 1 / 2 then f else if 1 / 2 < r then f + 1 else if even f then f else f + 1)"

definition py_round2 :: "real \<Rightarrow> real" where
  "py_round2 x = of_int (round_half_even (x * 100)) / 100"

section \<open>The request handlers\<close>

text \<open>
  A handler answers with status 400 and an error message, or with status 200 and a body;
  an exception nobody catches is the left summand of the result.
\<close>

datatype 'a http = Status400 string | Status200 'a

subsection \<open>\<open>/generate\<close>\<close>








subsection \<open>\<open>/evaluate\<close>\<close>

record eval_request =
  ev_target :: "pystr option"
  ev_decoys :: "pystr list option"

record evaluation =
  r_decoy :: pystr
  r_effectiveness :: real
  r_similarity :: real
  r_real_probability :: "real option"

record eval_metrics =
  ev_avg_effectiveness :: real
  ev_avg_similarity :: real

record eval_response =
  ev_resp_target :: pystr
  evaluations :: "evaluation list"
  ev_resp_metrics :: eval_metrics

text \<open>The body of the loop \<open>for decoy in decoys\<close>: the result dictionary of one decoy.\<close>

definition evaluate_one :: "extern \<Rightarrow> 'f globals \<Rightarrow> pystr \<Rightarrow> pystr \<Rightarrow> evaluation" where
  "evaluate_one E G target d =
     (let eff = evaluate_decoy E G d target;
          sim = calculate_similarity E d target
      in \<lparr> r_decoy = d, r_effectiveness = py_round2 eff, r_similarity = py_round2 sim,
           r_real_probability = map_option py_round2 (real_probability_of G d) \<rparr>)"

text \<open>
  \<open>results.sort(key=lambda x: x["effectiveness"], reverse=True)\<close>: the sort of Python lists
  is stable, and with \<open>reverse=True\<close> it still keeps elements of equal key in their
  original order.  It is the stable sort of the library on the negated key.
\<close>

definition sort_reverse :: "('a \<Rightarrow> real) \<Rightarrow> 'a list \<Rightarrow> 'a list" where
  "sort_reverse key xs = sort_key (\<lambda>x. - key x) xs"

definition evaluate_decoys_endpoint ::
  "extern \<Rightarrow> 'f globals \<Rightarrow> eval_request option \<Rightarrow> eval_response http" where
  "evaluate_decoys_endpoint E G data =
     (case data of
        None \<Rightarrow> Status400 ''No JSON data provided''
      | Some d \<Rightarrow>
          if ev_target d = None \<and> ev_decoys d = None then Status400 ''No JSON data provided''
          else
            let target = ev_target d;
                decoys = (case ev_decoys d of Some ds \<Rightarrow> ds | None \<Rightarrow> [])
            in if target = None \<or> target = Some [] \<or> decoys = []
               then Status400 ''Target and decoys are required''
               else
                 let results = map (evaluate_one E G (the target)) decoys;
                     results = sort_reverse r_effectiveness results
                 in Status200
                      \<lparr> ev_resp_target = the target, evaluations = results,
                        ev_resp_metrics =
                          \<lparr> ev_avg_effectiveness =
                              py_round2 (sum_list (map r_effectiveness results) / real (length results)),
                            ev_avg_similarity =
                              py_round2 (sum_list (map r_similarity results) / real (length results)) \<rparr> \<rparr>)"

section \<open>The formulas of the specification\<close>



text \<open>The number of positions at which two strings of the same length differ.\<close>

definition differing_positions :: "pystr \<Rightarrow> pystr \<Rightarrow> nat" where
  "differing_positions a b = length (filter (\<lambda>(x, y). x \<noteq> y) (zip a b))"

section \<open>Sample inputs\<close>

text \<open>
  Concrete collaborators for running the handlers: a similarity that only tells equal
  strings from different ones, a classifier that looks at the length of the string, and a
  request that carries out-of-range parameters.
\<close>

definition sample_extern :: extern where
  "sample_extern =
     \<lparr>unicode = ascii_only, sequence_ratio = (\<lambda>a b. if a = b then 1 else 1 / 2),
      elapsed_seconds = 0\<rparr>"

definition sample_globals :: "nat globals" where
  "sample_globals = \<lparr>model = Some (\<lambda>n. 1 / real (Suc n)), vectorizer = Some length\<rparr>"

definition unloaded_globals :: "nat globals" where
  "unloaded_globals = \<lparr>model = None, vectorizer = None\<rparr>"



definition empty_evaluation :: eval_request where
  "empty_evaluation = \<lparr>ev_target = Some (ascii ''kyber768''), ev_decoys = Some []\<rparr>"

section \<open>Evaluation\<close>

text \<open>The defining equations that the simplifier unfolds to run the generator on an input.\<close>

lemmas run_generator =
  character_substitution_decoy_def choose_positions_def num_to_modify_def py_int_def ascii_def
  np_choice_def substitute_step_def substitutions_def py_lower_def py_isalpha_def
  py_isupper_def py_isdigit_def ascii_upper_def ascii_lower_def ascii_digit_def np_randint_def
  structural_variation_decoy_def patterns_def py_re_sub_def match_at_def re_word_def
  re_digit_def expand_def generate_decoy_def np_random_def special_chars_def other_digits_def

section \<open>Drawing positions\<close>

lemma draw_without_replacement_props:
  "k \<le> length pool \<Longrightarrow> distinct pool \<Longrightarrow> draw_without_replacement pool k g = (ps, g') \<Longrightarrow>
   length ps = k \<and> distinct ps \<and> set ps \<subseteq> set pool"
proof (induction k arbitrary: pool g ps g')
  case 0
  then show ?case by simp
next
  case (Suc k)
  define i where "i = shd g mod length pool"
  define pool' where "pool' = take i pool @ drop (Suc i) pool"
  obtain rest g1 where r: "draw_without_replacement pool' k (stl g) = (rest, g1)"
    by (cases "draw_without_replacement pool' k (stl g)")
  from Suc.prems(1) have ne: "0 < length pool" by auto
  then have i: "i < length pool" by (simp add: i_def)
  have id: "pool = take i pool @ pool ! i # drop (Suc i) pool"
    using i by (simp add: id_take_nth_drop)
  have len: "length pool' = length pool - 1"
    using i by (simp add: pool'_def)
  have "distinct (take i pool @ pool ! i # drop (Suc i) pool)"
    using Suc.prems(2) id by simp
  then have dist: "distinct pool'" and notin: "pool ! i \<notin> set pool'"
    unfolding pool'_def by auto
  have sub: "set pool' \<subseteq> set pool"
    unfolding pool'_def using set_take_subset [of i pool] set_drop_subset [of "Suc i" pool] by auto
  from Suc.prems(1) len have k: "k \<le> length pool'" by simp
  from Suc.IH [OF k dist r] have ih: "length rest = k" "distinct rest" "set rest \<subseteq> set pool'"
    by auto
  from Suc.prems(3) r have ps: "ps = pool ! i # rest"
    by (simp add: Let_def i_def [symmetric] pool'_def [symmetric])
  show ?case using ih notin sub i ps by auto
qed


section \<open>Character substitution\<close>

lemma num_to_modify_bounds:
  "target \<noteq> [] \<Longrightarrow> 1 \<le> num_to_modify target similarity \<and>
     num_to_modify target similarity \<le> int (length target)"
  by (cases target) (auto simp: num_to_modify_def Let_def)

lemma np_choice_props:
  assumes "0 \<le> k" "k \<le> int n" "0 < n"
  shows "\<exists>ps g'. np_choice n k g = Inr (ps, g') \<and> int (length ps) = k \<and> distinct ps \<and>
           (\<forall>p \<in> set ps. p < n)"
proof -
  obtain ps g' where d: "draw_without_replacement [0..<n] (nat k) g = (ps, g')"
    by (cases "draw_without_replacement [0..<n] (nat k) g")
  from assms have "nat k \<le> length [0..<n]" by simp
  from draw_without_replacement_props [OF this _ d]
  have "length ps = nat k" "distinct ps" "set ps \<subseteq> set [0..<n]" by auto
  moreover from assms d have "np_choice n k g = Inr (ps, g')"
    by (simp add: np_choice_def)
  ultimately show ?thesis using assms by auto
qed

lemma substitutions_options:
  assumes "substitutions key = Some options"
  shows "options \<noteq> [] \<and> (\<forall>s \<in> set options. length s = 1)"
proof -
  from assms have "(key, options) \<in> set
     [ (ascii ''a'', [ascii ''@'', ascii ''4'', [225]]),
       (ascii ''b'', [ascii ''6'', ascii ''8'', [223]]),
       (ascii ''e'', [ascii ''3'', [233], [235]]),
       (ascii ''i'', [ascii ''1'', ascii ''!'', [237]]),
       (ascii ''l'', [ascii ''1'', ascii ''|'', [322]]),
       (ascii ''o'', [ascii ''0'', [248], [243]]),
       (ascii ''s'', [ascii ''5'', ascii ''$'', [353]]),
       (ascii ''t'', [ascii ''7'', ascii ''+'', [355]]),
       (ascii ''z'', [ascii ''2'', [382], [380]]) ]"
    unfolding substitutions_def by (rule map_of_SomeD)
  then show ?thesis by (auto simp: ascii_def)
qed

lemma other_digits_props:
  "other_digits c \<noteq> [] \<and> (\<forall>s \<in> set (other_digits c). length s = 1)"
proof -
  have "[48 + 0] \<in> set (other_digits c) \<or> [48 + 1] \<in> set (other_digits c)"
    unfolding other_digits_def by (cases "c = 48") auto
  then have "set (other_digits c) \<noteq> {}" by auto
  then have "other_digits c \<noteq> []" by simp
  moreover have "\<forall>s \<in> set (other_digits c). length s = 1"
    by (auto simp: other_digits_def)
  ultimately show ?thesis by simp
qed

lemma special_chars_props:
  "special_chars \<noteq> [] \<and> (\<forall>s \<in> set special_chars. length s = 1)"
  by (auto simp: special_chars_def ascii_def)

lemma np_randint_index:
  assumes "options \<noteq> []" "np_randint 0 (int (length options)) g = (k, g')"
  shows "options ! nat k \<in> set options"
proof -
  from assms(1) have "0 < int (length options)" by simp
  with assms(2) have "0 \<le> k" "k < int (length options)"
    by (auto simp: np_randint_def)
  then show ?thesis by (simp add: nat_less_iff)
qed

lemma substitute_step_shape:
  "\<exists>s g'. substitute_step U target pos (chars, g) = (chars[pos := s], g') \<and> length s = 1"
proof (cases "substitutions (py_lower U (target ! pos))")
  case (Some options)
  obtain k g' where r: "np_randint 0 (int (length options)) g = (k, g')"
    by (cases "np_randint 0 (int (length options)) g")
  from substitutions_options [OF Some] np_randint_index [OF _ r]
  have "length (options ! nat k) = 1" by blast
  with Some r show ?thesis by (auto simp: substitute_step_def)
next
  case None
  show ?thesis
  proof (cases "py_isalpha U (target ! pos)")
    case True
    with None show ?thesis
      by (auto simp: substitute_step_def np_randint_def)
  next
    case False
    show ?thesis
    proof (cases "py_isdigit U (target ! pos)")
      case True
      obtain k g' where r: "np_randint 0 (int (length (other_digits (target ! pos)))) g = (k, g')"
        by (cases "np_randint 0 (int (length (other_digits (target ! pos)))) g")
      from other_digits_props [of "target ! pos"] np_randint_index [OF _ r]
      have "length (other_digits (target ! pos) ! nat k) = 1" by blast
      with None False True r show ?thesis by (auto simp: substitute_step_def)
    next
      case nd: False
      obtain k g' where r: "np_randint 0 (int (length special_chars)) g = (k, g')"
        by (cases "np_randint 0 (int (length special_chars)) g")
      from special_chars_props np_randint_index [OF _ r]
      have "length (special_chars ! nat k) = 1" by blast
      with None False nd r show ?thesis by (auto simp: substitute_step_def)
    qed
  qed
qed

lemma fold_substitute_step:
  "fold (substitute_step U target) positions (chars, g) = (chars', g') \<Longrightarrow>
   \<forall>s \<in> set chars. length s = 1 \<Longrightarrow>
   length chars' = length chars \<and> (\<forall>s \<in> set chars'. length s = 1) \<and>
   (\<forall>i. i \<notin> set positions \<longrightarrow> chars' ! i = chars ! i)"
proof (induction positions arbitrary: chars g)
  case Nil
  then show ?case by simp
next
  case (Cons pos positions)
  obtain s g1 where st: "substitute_step U target pos (chars, g) = (chars[pos := s], g1)"
    and s: "length s = 1"
    using substitute_step_shape by blast
  from Cons.prems(1) st
  have f: "fold (substitute_step U target) positions (chars[pos := s], g1) = (chars', g')"
    by simp
  have "\<forall>t \<in> set (chars[pos := s]). length t = 1"
    using Cons.prems(2) s set_update_subset_insert [of chars pos s] by auto
  from Cons.IH [OF f this] show ?case by auto
qed

lemma concat_singletons:
  "\<forall>s \<in> set xs. length s = 1 \<Longrightarrow> concat xs = map hd xs"
proof (induction xs)
  case Nil
  then show ?case by simp
next
  case (Cons s xs)
  then have "length s = 1" by simp
  then have "s = [hd s]" by (cases s) auto
  with Cons show ?case by (metis append_Cons append_Nil concat.simps(2) list.set_intros(2) list.simps(9))
qed

lemma character_substitution_decoy_result:
  assumes "target \<noteq> []"
  shows "\<exists>positions g1 decoy g2.
           choose_positions target similarity g = Inr (positions, g1) \<and>
           character_substitution_decoy U target similarity g = Inr (decoy, g2) \<and>
           int (length positions) = num_to_modify target similarity \<and>
           distinct positions \<and> (\<forall>p \<in> set positions. p < length target) \<and>
           length decoy = length target \<and>
           (\<forall>i < length target. i \<notin> set positions \<longrightarrow> decoy ! i = target ! i)"
proof -
  from num_to_modify_bounds [OF assms, of similarity]
  have b: "0 \<le> num_to_modify target similarity"
    "num_to_modify target similarity \<le> int (length target)" by auto
  from assms have "0 < length target" by simp
  from np_choice_props [OF b this, of g]
  obtain positions g1 where c: "choose_positions target similarity g = Inr (positions, g1)"
    and p: "int (length positions) = num_to_modify target similarity" "distinct positions"
      "\<forall>p \<in> set positions. p < length target"
    unfolding choose_positions_def by blast
  obtain chars' g2 where f:
    "fold (substitute_step U target) positions (map (\<lambda>c. [c]) target, g1) = (chars', g2)"
    by (cases "fold (substitute_step U target) positions (map (\<lambda>c. [c]) target, g1)")
  from fold_substitute_step [OF f]
  have inv: "length chars' = length target" "\<forall>s \<in> set chars'. length s = 1"
    "\<forall>i. i \<notin> set positions \<longrightarrow> chars' ! i = map (\<lambda>c. [c]) target ! i"
    by auto
  have d: "character_substitution_decoy U target similarity g = Inr (concat chars', g2)"
    using c f by (simp add: character_substitution_decoy_def)
  have cc: "concat chars' = map hd chars'"
    using inv(2) by (rule concat_singletons)
  have "\<forall>i < length target. i \<notin> set positions \<longrightarrow> concat chars' ! i = target ! i"
    using inv(1,3) cc by simp
  with c d p inv(1) cc show ?thesis by simp
qed

section \<open>Claims about \<open>character_substitution_decoy\<close>\<close>




text \<open>
  Claim C8, at an input where it fails.  On the empty string the number of positions is
  \<open>max(1, min(0, -1)) = 1\<close>, and drawing one index out of none raises \<open>ValueError\<close>.
\<close>

theorem character_substitution_empty_counterexample:
  "character_substitution_decoy ascii_only [] (7 / 10) (sconst 0) = Inl ValueError"
  by (simp add: character_substitution_decoy_def choose_positions_def num_to_modify_def
      py_int_def np_choice_def)

text \<open>
  Claim C8, as amended.  \<open>character_substitution_decoy\<close> raises \<open>ValueError\<close> on the empty
  string; the empty string as a degenerate result belongs to \<open>generate_decoy\<close>, whose guard
  returns it for an empty target before any strategy is chosen.  The empty string is the
  only input on which \<open>character_substitution_decoy\<close> fails: on every non-empty string it
  returns a string.
\<close>

theorem character_substitution_fails_only_on_empty:
  "character_substitution_decoy U [] similarity g = Inl ValueError \<and>
   generate_decoy U [] complexity g = Inr ([], g) \<and>
   (target \<noteq> [] \<longrightarrow> (\<exists>decoy g'. character_substitution_decoy U target similarity g = Inr (decoy, g')))"
proof -
  have "character_substitution_decoy U [] similarity g = Inl ValueError"
    by (simp add: character_substitution_decoy_def choose_positions_def num_to_modify_def
        py_int_def np_choice_def)
  moreover have "generate_decoy U [] complexity g = Inr ([], g)"
    by (simp add: generate_decoy_def)
  moreover have "target \<noteq> [] \<longrightarrow>
      (\<exists>decoy g'. character_substitution_decoy U target similarity g = Inr (decoy, g'))"
    using character_substitution_decoy_result [of target similarity g U] by blast
  ultimately show ?thesis by blast
qed

theorem character_substitution_fails_only_on_empty_witness:
  "ascii ''x'' \<noteq> [] \<and>
   character_substitution_decoy ascii_only (ascii ''x'') (7 / 10) (sconst 0) = Inr (ascii ''a'', sconst 0)"
  using character_substitution_fails_only_on_empty [of ascii_only "7 / 10" "sconst 0" 5 "ascii ''x''"]
  by (simp add: run_generator)

text \<open>
  Claim C10.  On every non-empty string and for every outcome of the random source,
  \<open>character_substitution_decoy\<close> returns a string of the length of its input: each drawn
  position receives a one-character replacement.  So the decoys of complexity at most 3
  have the length of the target.
\<close>

theorem character_substitution_preserves_length:
  "target \<noteq> [] \<Longrightarrow>
   (\<exists>decoy g'. character_substitution_decoy U target similarity g = Inr (decoy, g') \<and>
      length decoy = length target) \<and>
   (complexity \<le> 3 \<longrightarrow>
      (\<exists>decoy g'. generate_decoy U target complexity g = Inr (decoy, g') \<and>
         length decoy = length target))"
proof -
  assume t: "target \<noteq> []"
  have a: "\<exists>decoy g'. character_substitution_decoy U target s g = Inr (decoy, g') \<and>
      length decoy = length target" for s
    using character_substitution_decoy_result [OF t, of s g U] by blast
  have "complexity \<le> 3 \<longrightarrow> generate_decoy U target complexity g =
      character_substitution_decoy U target (1 - real_of_int complexity / 20) g"
    using t by (simp add: generate_decoy_def)
  with a show ?thesis by metis
qed

theorem character_substitution_preserves_length_witness:
  "ascii ''kyber768'' \<noteq> [] \<and>
   (\<exists>decoy g'. character_substitution_decoy ascii_only (ascii ''kyber768'') (17 / 20) (5 ## 4 ## sconst 0) = Inr (decoy, g') \<and>
      length decoy = length (ascii ''kyber768'')) \<and> (3::int) \<le> 3 \<and>
   (\<exists>decoy g'. generate_decoy ascii_only (ascii ''kyber768'') 3 (5 ## 4 ## sconst 0) = Inr (decoy, g') \<and>
         length decoy = length (ascii ''kyber768''))"
  using character_substitution_preserves_length [of "ascii ''kyber768''" ascii_only "17 / 20" "5 ## 4 ## sconst 0" 3]
  by (simp add: ascii_def)

section \<open>Claims about the generator\<close>

lemma half_of_draws:
  "card {k. k < 2 ^ 53 \<and> fst (np_random (k ## g)) < 1 / 2} = 2 ^ 52"
proof -
  have "{k. k < 2 ^ 53 \<and> fst (np_random (k ## g)) < 1 / 2} = {..< (2::nat) ^ 52}"
  proof (rule set_eqI)
    fix k :: nat
    have "real k / 2 ^ 53 < 1 / 2 \<longleftrightarrow> real k < 2 ^ 52"
      by (simp add: field_simps)
    also have "\<dots> \<longleftrightarrow> k < 2 ^ 52"
      by (metis of_nat_less_iff of_nat_numeral of_nat_power)
    finally have e: "real k / 2 ^ 53 < 1 / 2 \<longleftrightarrow> k < 2 ^ 52" .
    have "k < 2 ^ 52 \<Longrightarrow> k < 2 ^ 53" by simp
    with e show "k \<in> {k. k < 2 ^ 53 \<and> fst (np_random (k ## g)) < 1 / 2} \<longleftrightarrow> k \<in> {..< (2::nat) ^ 52}"
      by (auto simp: np_random_def)
  qed
  then show ?thesis by simp
qed

text \<open>
  Claim C3.  For a target (a non-empty string) \<open>generate_decoy\<close> passes the similarity
  \<open>1 - complexity / 20\<close> on and picks its strategy by the complexity: up to 3 it is
  \<open>character_substitution_decoy\<close>; from 4 to 7 it is \<open>character_substitution_decoy\<close> when
  the draw of \<open>np.random.random()\<close> is below \<open>0.5\<close> and \<open>structural_variation_decoy\<close>
  otherwise; from 8 on it is \<open>structural_variation_decoy\<close>.  Of the \<open>2^53\<close> equally likely
  values of the draw exactly half, \<open>2^52\<close>, are below \<open>0.5\<close>.
\<close>

theorem generate_decoy_strategy:
  "target \<noteq> [] \<Longrightarrow>
   (complexity \<le> 3 \<longrightarrow>
      generate_decoy U target complexity g =
        character_substitution_decoy U target (1 - real_of_int complexity / 20) g) \<and>
   (4 \<le> complexity \<and> complexity \<le> 7 \<longrightarrow>
      generate_decoy U target complexity g =
        (if fst (np_random g) < 1 / 2
         then character_substitution_decoy U target (1 - real_of_int complexity / 20) (snd (np_random g))
         else structural_variation_decoy U target (1 - real_of_int complexity / 20) (snd (np_random g)))) \<and>
   (8 \<le> complexity \<longrightarrow>
      generate_decoy U target complexity g =
        structural_variation_decoy U target (1 - real_of_int complexity / 20) g) \<and>
   card {k. k < 2 ^ 53 \<and> fst (np_random (k ## g)) < 1 / 2} = 2 ^ 52 \<and>
   card {k. k < (2::nat) ^ 53} = 2 ^ 53"
proof -
  assume t: "target \<noteq> []"
  have "{k. k < (2::nat) ^ 53} = {..< 2 ^ 53}" by auto
  then have "card {k. k < (2::nat) ^ 53} = 2 ^ 53" by simp
  with t half_of_draws [of g] show ?thesis
    by (simp add: generate_decoy_def Let_def split_beta)
qed

theorem generate_decoy_strategy_witness:
  "ascii ''ntru'' \<noteq> [] \<and> (3::int) \<le> 3 \<and> (4::int) \<le> 5 \<and> (5::int) \<le> 7 \<and> (8::int) \<le> 9 \<and>
   generate_decoy ascii_only (ascii ''ntru'') 3 (sconst 0) =
     character_substitution_decoy ascii_only (ascii ''ntru'') (1 - real_of_int 3 / 20) (sconst 0) \<and>
   generate_decoy ascii_only (ascii ''ntru'') 5 (sconst 0) =
     character_substitution_decoy ascii_only (ascii ''ntru'') (1 - real_of_int 5 / 20) (sconst 0) \<and>
   generate_decoy ascii_only (ascii ''ntru'') 9 (sconst 0) =
     structural_variation_decoy ascii_only (ascii ''ntru'') (1 - real_of_int 9 / 20) (sconst 0)"
  using generate_decoy_strategy [of "ascii ''ntru''" 3 ascii_only "sconst 0"]
    generate_decoy_strategy [of "ascii ''ntru''" 5 ascii_only "sconst 0"]
    generate_decoy_strategy [of "ascii ''ntru''" 9 ascii_only "sconst 0"]
  by (simp add: ascii_def np_random_def)

text \<open>
  Claim C4, at an input where the code breaks it.  For the target \<open>ntru\<close> the first pattern
  \<open>(\w+)(\d+)\<close> finds no digit, \<open>re.sub\<close> returns the target, and the fallback
  \<open>character_substitution_decoy\<close> draws position 0 and, for the letter \<open>n\<close> that has no
  homoglyph, a letter of \<open>a-z\<close> that may be \<open>n\<close> again: the result is the target itself,
  from \<open>structural_variation_decoy\<close> and from \<open>generate_decoy\<close> at complexity 8.
\<close>

theorem structural_variation_returns_target:
  "structural_variation_decoy U (ascii ''ntru'') (3 / 5) (0 ## 0 ## 13 ## sconst 0)
     = Inr (ascii ''ntru'', sconst 0) \<and>
   generate_decoy U (ascii ''ntru'') 8 (0 ## 0 ## 13 ## sconst 0)
     = Inr (ascii ''ntru'', sconst 0)"
  by (simp add: run_generator)

text \<open>
  Claim C7, at an outcome of the random source where the code breaks it.  For the target
  \<open>kyber768\<close> and complexity 3 one position is drawn; when it is position 0 and the letter
  drawn for \<open>k\<close> is \<open>k\<close>, the decoy is \<open>kyber768\<close> and differs from the target in no position.
\<close>

theorem generate_kyber768_returns_target:
  "generate_decoy U (ascii ''kyber768'') 3 (0 ## 10 ## sconst 0)
     = Inr (ascii ''kyber768'', sconst 0) \<and>
   (case generate_decoy U (ascii ''kyber768'') 3 (0 ## 10 ## sconst 0) of
      Inr (decoy, g') \<Rightarrow> differing_positions decoy (ascii ''kyber768'') = 0
    | Inl e \<Rightarrow> False)"
  by (simp add: run_generator differing_positions_def)

section \<open>Claims about the scorer and the handlers\<close>

text \<open>
  Claim C1.  The effectiveness of a decoy is half its similarity to the target plus half
  the probability the classifier gives it when a model and a vectorizer are loaded, and
  half its similarity plus half of the neutral \<open>0.5\<close> when they are not.
\<close>

theorem evaluate_decoy_formula:
  "(model G = Some m \<and> vectorizer G = Some v \<longrightarrow>
      evaluate_decoy E G decoy target =
        0.5 * calculate_similarity E decoy target + 0.5 * m (v decoy)) \<and>
   (model G = None \<or> vectorizer G = None \<longrightarrow>
      evaluate_decoy E G decoy target = 0.5 * calculate_similarity E decoy target + 0.5 * 0.5)"
  by (auto simp: evaluate_decoy_def real_probability_of_def split: option.splits)

theorem evaluate_decoy_formula_witness:
  "model sample_globals = Some (\<lambda>n. 1 / real (Suc n)) \<and> vectorizer sample_globals = Some length \<and>
   evaluate_decoy sample_extern sample_globals (ascii ''kyber76-8'') (ascii ''kyber768'') =
     0.5 * calculate_similarity sample_extern (ascii ''kyber76-8'') (ascii ''kyber768'') +
     0.5 * (1 / real (Suc (length (ascii ''kyber76-8'')))) \<and>
   model unloaded_globals = None \<and>
   evaluate_decoy sample_extern unloaded_globals (ascii ''kyber76-8'') (ascii ''kyber768'') =
     0.5 * calculate_similarity sample_extern (ascii ''kyber76-8'') (ascii ''kyber768'') + 0.5 * 0.5"
proof -
  have h: "model sample_globals = Some (\<lambda>n. 1 / real (Suc n))"
    "vectorizer sample_globals = Some length" "model unloaded_globals = None"
    by (simp_all add: sample_globals_def unloaded_globals_def)
  from h evaluate_decoy_formula [of sample_globals "\<lambda>n. 1 / real (Suc n)" length sample_extern
      "ascii ''kyber76-8''" "ascii ''kyber768''"]
    evaluate_decoy_formula [where G = unloaded_globals and E = sample_extern
      and decoy = "ascii ''kyber76-8''" and target = "ascii ''kyber768''"]
  show ?thesis by blast
qed















lemma evaluate_decoys_endpoint_invalid:
  assumes "ev_decoys d = None \<or> ev_decoys d = Some [] \<or> ev_target d = None"
  shows "evaluate_decoys_endpoint E G (Some d) =
           (if ev_target d = None \<and> ev_decoys d = None then Status400 ''No JSON data provided''
            else Status400 ''Target and decoys are required'')"
  using assms by (auto simp: evaluate_decoys_endpoint_def Let_def)

text \<open>
  Claim C9.  An \<open>/evaluate\<close> request whose list of decoys is missing or empty, or whose
  target is missing, is answered with a client error (status 400).  The answer is the
  same whatever the similarity measure and the classifier are: nothing is evaluated and
  no metric is computed.  A request without a body is answered with status 400 as well.
\<close>

theorem evaluate_decoys_rejects:
  "ev_decoys d = None \<or> ev_decoys d = Some [] \<or> ev_target d = None \<Longrightarrow>
   (\<exists>msg. evaluate_decoys_endpoint E G (Some d) = Status400 msg) \<and>
   evaluate_decoys_endpoint E G (Some d) = evaluate_decoys_endpoint E' G' (Some d) \<and>
   (\<exists>msg. evaluate_decoys_endpoint E G None = Status400 msg)"
  using evaluate_decoys_endpoint_invalid [of d E G] evaluate_decoys_endpoint_invalid [of d E' G']
  by (auto simp: evaluate_decoys_endpoint_def)

theorem evaluate_decoys_rejects_witness:
  "(ev_decoys empty_evaluation = None \<or> ev_decoys empty_evaluation = Some [] \<or>
      ev_target empty_evaluation = None) \<and>
   (\<exists>msg. evaluate_decoys_endpoint sample_extern sample_globals (Some empty_evaluation)
      = Status400 msg) \<and>
   evaluate_decoys_endpoint sample_extern sample_globals (Some empty_evaluation) =
     evaluate_decoys_endpoint sample_extern unloaded_globals (Some empty_evaluation)"
proof -
  have h: "ev_decoys empty_evaluation = None \<or> ev_decoys empty_evaluation = Some [] \<or>
      ev_target empty_evaluation = None"
    by (simp add: empty_evaluation_def)
  from h evaluate_decoys_rejects [OF h, of sample_extern sample_globals sample_extern unloaded_globals]
  show ?thesis by blast
qed

end
